theory Spec2Isabelle
  imports Complex_Main "HOL-Library.Log_Nat"
begin

section \<open>Python values and exceptions\<close>

text \<open>
  The module \<^verbatim>\<open>geospatial_utilities.py\<close> works on Python floats, on numpy arrays and on
  objects of the rasterio, pyproj, affine and scipy libraries.  Every exception that a
  statement of the module can raise is a value of \<open>py_error\<close>; a function that may
  raise returns \<open>py_error + 'a\<close> with \<open>Inl\<close> for the exception.

  \<open>UnsupportedHemisphereError\<close> is the name the specification gives to the failure of
  \<open>get_epsg_code\<close> on an unknown hemisphere.  No statement of the module constructs it;
  the constructor exists so that the specification can be compared with the code.
\<close>

datatype py_error =
    IndexError
  | ValueError
  | OverflowError
  | ZeroDivisionError
  | UnboundLocalError
  | RuntimeError
  | TransformNotInvertibleError
  | UnsupportedHemisphereError
  | LibraryError string

text \<open>
  A float is a finite value, an infinity or NaN.  The operations \<open>fadd\<close>, \<open>fmul\<close> and
  \<open>fdiv\<close> are exact on finite values and leave the sign of zero out; the rounded
  operations on doubles follow below.  The special values are kept because the control
  flow of the module depends on them (\<open>int\<close> raises on them, comparisons with NaN are
  false, \<open>np.isnan\<close> selects them).
\<close>

datatype pyfloat = Finite real | PosInf | NegInf | NaN

fun fneg :: "pyfloat \<Rightarrow> pyfloat" where
  "fneg (Finite x) = Finite (- x)"
| "fneg PosInf = NegInf"
| "fneg NegInf = PosInf"
| "fneg NaN = NaN"

fun fadd :: "pyfloat \<Rightarrow> pyfloat \<Rightarrow> pyfloat" where
  "fadd (Finite x) (Finite y) = Finite (x + y)"
| "fadd NaN _ = NaN"
| "fadd _ NaN = NaN"
| "fadd PosInf NegInf = NaN"
| "fadd NegInf PosInf = NaN"
| "fadd PosInf _ = PosInf"
| "fadd NegInf _ = NegInf"
| "fadd _ PosInf = PosInf"
| "fadd _ NegInf = NegInf"

definition fsub :: "pyfloat \<Rightarrow> pyfloat \<Rightarrow> pyfloat" where
  "fsub a b = fadd a (fneg b)"

text \<open>The sign of a float that is not NaN: \<open>-1\<close>, \<open>0\<close> or \<open>1\<close>.\<close>

fun fsign :: "pyfloat \<Rightarrow> int" where
  "fsign (Finite x) = (if x < 0 then - 1 else if x = 0 then 0 else 1)"
| "fsign PosInf = 1"
| "fsign NegInf = - 1"
| "fsign NaN = 0"

definition inf_of_sign :: "int \<Rightarrow> pyfloat" where
  "inf_of_sign s = (if s < 0 then NegInf else if s = 0 then NaN else PosInf)"

fun fmul :: "pyfloat \<Rightarrow> pyfloat \<Rightarrow> pyfloat" where
  "fmul (Finite x) (Finite y) = Finite (x * y)"
| "fmul NaN _ = NaN"
| "fmul _ NaN = NaN"
| "fmul a b = inf_of_sign (fsign a * fsign b)"

text \<open>
  Division as numpy does it: a zero divisor gives an infinity or NaN.  Python's own
  \<open>/\<close> on floats raises instead, see \<open>py_truediv\<close>.
\<close>

fun fdiv :: "pyfloat \<Rightarrow> pyfloat \<Rightarrow> pyfloat" where
  "fdiv NaN _ = NaN"
| "fdiv _ NaN = NaN"
| "fdiv (Finite x) (Finite y) =
     (if y = 0 then inf_of_sign (fsign (Finite x)) else Finite (x / y))"
| "fdiv (Finite x) _ = Finite 0"
| "fdiv a (Finite y) = (if y < 0 then fneg a else a)"
| "fdiv _ _ = NaN"

definition py_truediv :: "pyfloat \<Rightarrow> pyfloat \<Rightarrow> py_error + pyfloat" where
  "py_truediv a b = (if b = Finite 0 then Inl ZeroDivisionError else Inr (fdiv a b))"

text \<open>Comparison \<open>a <= b\<close>: false as soon as one side is NaN.\<close>

fun fle :: "pyfloat \<Rightarrow> pyfloat \<Rightarrow> bool" where
  "fle NaN _ = False"
| "fle _ NaN = False"
| "fle (Finite x) (Finite y) = (x \<le> y)"
| "fle NegInf _ = True"
| "fle _ PosInf = True"
| "fle _ _ = False"

definition isnan :: "pyfloat \<Rightarrow> bool" where
  "isnan v = (v = NaN)"

text \<open>
  \<open>int(x)\<close> on a float rounds toward zero; it raises \<open>ValueError\<close> on NaN and
  \<open>OverflowError\<close> on an infinity.
\<close>

definition py_trunc :: "real \<Rightarrow> int" where
  "py_trunc x = (if 0 \<le> x then \<lfloor>x\<rfloor> else - \<lfloor>- x\<rfloor>)"

fun py_int :: "pyfloat \<Rightarrow> py_error + int" where
  "py_int (Finite x) = Inr (py_trunc x)"
| "py_int NaN = Inl ValueError"
| "py_int _ = Inl OverflowError"

text \<open>
  Where an integer is taken from a product or a quotient, the rounding of the operation
  decides which integer it is: \<open>11 * (15 / 11)\<close> is \<open>14.999999999999998\<close> in doubles.
  \<open>double_round\<close> is the rounding of IEEE 754 binary64, to the nearest double with ties
  to the even mantissa: 53 bits of mantissa, the exponents \<open>-1022\<close> to \<open>1023\<close>, gradual
  underflow below and an infinity from \<open>2 ^ 1024\<close> on.  \<open>binade a\<close> is the exponent \<open>e\<close>
  with \<open>2 ^ e \<le> a < 2 ^ (e + 1)\<close> of a positive \<open>a\<close>, \<open>ulp\<close> is the distance of the doubles
  there and \<open>m\<close> the mantissa, an integer of at most \<open>2 ^ 53 = 9007199254740992\<close>.  The
  rounded value \<open>m * ulp\<close> reaches \<open>2 ^ 1024\<close> when the exponent is beyond 1023, or is
  1023 with a mantissa that was rounded up to \<open>2 ^ 53\<close>.
\<close>

definition pow2 :: "int \<Rightarrow> real" where
  "pow2 k = (if 0 \<le> k then 2 ^ nat k else 1 / 2 ^ nat (- k))"

definition round_half_even :: "real \<Rightarrow> int" where
  "round_half_even q =
     (let n = \<lfloor>q\<rfloor>; r = q - real_of_int n
      in if r < 1 / 2 then n else if 1 / 2 < r then n + 1 else if even n then n else n + 1)"

definition binade :: "real \<Rightarrow> int" where
  "binade a =
     (if 1 \<le> a then int (floorlog 2 (nat \<lfloor>a\<rfloor>)) - 1
      else - int (floorlog 2 (nat (\<lceil>1 / a\<rceil> - 1))))"

definition double_round :: "real \<Rightarrow> pyfloat" where
  "double_round x =
     (if x = 0 then Finite 0
      else
        let a = \<bar>x\<bar>;
            e = max (binade a) (- 1022);
            ulp = pow2 (e - 52);
            m = round_half_even (a / ulp)
        in if 1023 < e \<or> (e = 1023 \<and> m = 9007199254740992)
           then (if x < 0 then NegInf else PosInf)
           else Finite (if x < 0 then - (real_of_int m * ulp) else real_of_int m * ulp))"

text \<open>
  The operations on doubles: the exact result, rounded.  \<open>float_truediv\<close> is Python's
  \<open>a / b\<close>, which raises on a zero divisor and overflows to an infinity silently;
  \<open>int_to_double\<close> is the conversion \<open>n * x\<close> makes of the integer \<open>n\<close>, which raises
  \<open>OverflowError\<close> where the integer is beyond all doubles.
\<close>

definition round_result :: "pyfloat \<Rightarrow> pyfloat" where
  "round_result v = (case v of Finite x \<Rightarrow> double_round x | _ \<Rightarrow> v)"

definition double_mul :: "pyfloat \<Rightarrow> pyfloat \<Rightarrow> pyfloat" where
  "double_mul a b = round_result (fmul a b)"

definition double_div :: "pyfloat \<Rightarrow> pyfloat \<Rightarrow> pyfloat" where
  "double_div a b = round_result (fdiv a b)"

definition float_truediv :: "pyfloat \<Rightarrow> pyfloat \<Rightarrow> py_error + pyfloat" where
  "float_truediv a b = (if b = Finite 0 then Inl ZeroDivisionError else Inr (double_div a b))"

definition int_to_double :: "int \<Rightarrow> py_error + pyfloat" where
  "int_to_double n =
     (case double_round (real_of_int n) of Finite x \<Rightarrow> Inr (Finite x) | _ \<Rightarrow> Inl OverflowError)"

text \<open>Sequencing of computations that may raise: the first exception ends the run.\<close>

definition and_then :: "py_error + 'a \<Rightarrow> ('a \<Rightarrow> py_error + 'b) \<Rightarrow> py_error + 'b" where
  "and_then m f = (case m of Inl e \<Rightarrow> Inl e | Inr x \<Rightarrow> f x)"

section \<open>UTM zone and EPSG code\<close>

text \<open>
  \<^verbatim>\<open>zone_number = int((longitude + 180) / 6) + 1\<close>, then reset to 1 above 60.
\<close>

definition get_utm_zone :: "pyfloat \<Rightarrow> py_error + int" where
  "get_utm_zone longitude =
     and_then (py_truediv (fadd longitude (Finite 180)) (Finite 6)) (\<lambda>q.
     and_then (py_int q) (\<lambda>t.
       let zone_number = t + 1 in
       Inr (if zone_number > 60 then 1 else zone_number)))"

text \<open>
  The \<^verbatim>\<open>if\<close>/\<^verbatim>\<open>elif\<close> chain has no \<^verbatim>\<open>else\<close>: with any other hemisphere the local
  \<^verbatim>\<open>epsg_code\<close> is read before it was assigned, which raises \<open>UnboundLocalError\<close>.
\<close>

definition get_epsg_code :: "int \<Rightarrow> string \<Rightarrow> py_error + int" where
  "get_epsg_code utm_zone hemisphere =
     (if hemisphere = ''N'' then Inr (32600 + utm_zone)
      else if hemisphere = ''S'' then Inr (32700 + utm_zone)
      else Inl UnboundLocalError)"

text \<open>\<^verbatim>\<open>hemisphere = 'N' if coordinate[0] >= 0 else 'S'\<close>\<close>

definition hemisphere_of :: "pyfloat \<Rightarrow> string" where
  "hemisphere_of latitude = (if fle (Finite 0) latitude then ''N'' else ''S'')"

text \<open>The zone formula as the specification words it, with \<open>floor\<close>.\<close>

definition utm_zone_spec :: "real \<Rightarrow> int" where
  "utm_zone_spec L = (let z = \<lfloor>(L + 180) / 6\<rfloor> + 1 in if z > 60 then 1 else z)"

section \<open>Arrays\<close>

text \<open>
  A two-dimensional numpy array is a list of rows.  \<open>a[r, c]\<close> counts a negative index
  from the end of its axis and raises \<open>IndexError\<close> outside \<open>-n \<le> i < n\<close>.
\<close>

type_synonym grid = "pyfloat list list"

definition np_axis_index :: "nat \<Rightarrow> int \<Rightarrow> py_error + nat" where
  "np_axis_index n i =
     (let k = (if i < 0 then i + int n else i)
      in if 0 \<le> k \<and> k < int n then Inr (nat k) else Inl IndexError)"

definition np_getitem2 :: "grid \<Rightarrow> int \<Rightarrow> int \<Rightarrow> py_error + pyfloat" where
  "np_getitem2 a r c =
     and_then (np_axis_index (length a) r) (\<lambda>i.
     and_then (np_axis_index (length (a ! i)) c) (\<lambda>j.
       Inr (a ! i ! j)))"

text \<open>\<open>w.reshape((rows, cols))\<close> of a one-dimensional array, row by row.\<close>

definition np_reshape2 :: "pyfloat list \<Rightarrow> int \<Rightarrow> int \<Rightarrow> py_error + grid" where
  "np_reshape2 w rows cols =
     (if rows < 0 \<or> cols < 0 \<or> int (length w) \<noteq> rows * cols then Inl ValueError
      else Inr (map (\<lambda>r. take (nat cols) (drop (r * nat cols) w)) [0..<nat rows]))"

text \<open>\<open>np.mean\<close> and \<open>np.var\<close> (population variance) of a one-dimensional array.\<close>

definition np_sum :: "pyfloat list \<Rightarrow> pyfloat" where
  "np_sum w = foldl fadd (Finite 0) w"

definition np_mean :: "pyfloat list \<Rightarrow> pyfloat" where
  "np_mean w = fdiv (np_sum w) (Finite (real (length w)))"

definition np_var :: "pyfloat list \<Rightarrow> pyfloat" where
  "np_var w =
     (let arrmean = np_mean w
      in np_mean (map (\<lambda>x. fmul (fsub x arrmean) (fsub x arrmean)) w))"

text \<open>Results of a list of computations, in order; the first exception wins.\<close>

fun collect :: "(py_error + 'a) list \<Rightarrow> py_error + 'a list" where
  "collect [] = Inr []"
| "collect (m # ms) = and_then m (\<lambda>v. and_then (collect ms) (\<lambda>vs. Inr (v # vs)))"

section \<open>Affine transforms\<close>

text \<open>
  Modelled from the spec: the affine transform between pixel indices and coordinates,
  whose class \<open>Affine\<close> belongs to the affine package and not to the source.
  \<open>Affine sa sb sc sd se sf\<close> maps \<open>(x, y)\<close> to
  \<open>(x * sa + y * sb + sc, x * sd + y * se + sf)\<close>.  \<open>~t\<close> is \<open>affine_invert\<close>, which
  refuses a transform of determinant zero, and \<open>t * (x, y)\<close> is \<open>affine_mul\<close>.
\<close>

datatype affine = Affine pyfloat pyfloat pyfloat pyfloat pyfloat pyfloat

fun determinant :: "affine \<Rightarrow> pyfloat" where
  "determinant (Affine sa sb sc sd se sf) = fsub (fmul sa se) (fmul sb sd)"

fun affine_invert :: "affine \<Rightarrow> py_error + affine" where
  "affine_invert (Affine sa sb sc sd se sf) =
     (if determinant (Affine sa sb sc sd se sf) = Finite 0
      then Inl TransformNotInvertibleError
      else
        let idet = fdiv (Finite 1) (determinant (Affine sa sb sc sd se sf));
            ra = fmul se idet;
            rb = fmul (fneg sb) idet;
            rd = fmul (fneg sd) idet;
            re = fmul sa idet
        in Inr (Affine ra rb (fsub (fmul (fneg sc) ra) (fmul sf rb))
                       rd re (fsub (fmul (fneg sc) rd) (fmul sf re))))"

fun affine_mul :: "affine \<Rightarrow> pyfloat \<times> pyfloat \<Rightarrow> pyfloat \<times> pyfloat" where
  "affine_mul (Affine sa sb sc sd se sf) (vx, vy) =
     (fadd (fadd (fmul vx sa) (fmul vy sb)) sc, fadd (fadd (fmul vx sd) (fmul vy se)) sf)"

section \<open>The raster source and the libraries\<close>

text \<open>
  What the module uses of an open \<open>rasterio\<close> dataset: its attributes and the methods
  \<open>index\<close> and \<open>read\<close>.  \<open>read band window out_shape resampling\<close> is
  \<^verbatim>\<open>dataset.read(band, window=window, out_shape=out_shape, resampling=resampling)\<close>;
  \<open>None\<close> is an \<open>out_shape\<close> that was not given.  The methods belong to the library, so
  they are fields of the record and the theorems hold for every dataset.  Opening the
  file is the caller's matter here: a file that cannot be opened never reaches the
  functions below.
\<close>

datatype resampling = nearest | bilinear

record bounding_box =
  left :: pyfloat
  bottom :: pyfloat
  right :: pyfloat
  top :: pyfloat

type_synonym window = "(int \<times> int) \<times> (int \<times> int)"

record 'crs dataset =
  crs :: 'crs
  width :: int
  height :: int
  bounds :: bounding_box
  index :: "pyfloat \<Rightarrow> pyfloat \<Rightarrow> py_error + (int \<times> int)"
  read :: "int \<Rightarrow> window \<Rightarrow> (int \<times> int \<times> int) option \<Rightarrow> resampling \<Rightarrow> py_error + grid"

text \<open>
  Modelled from the spec: the windowed read of the raster source, which is rasterio's and
  not part of the source.  A read that is not boundless returns the part of the band
  under the window \<open>((r0, r1), (c0, c1))\<close>, the rows \<open>r0\<close> to \<open>r1\<close> and the columns \<open>c0\<close>
  to \<open>c1\<close>, clipped to the band: a window that leaves the raster gives a smaller grid.
\<close>

definition band_window :: "grid \<Rightarrow> window \<Rightarrow> grid" where
  "band_window band w =
     (case w of ((r0, r1), (c0, c1)) \<Rightarrow>
        map (\<lambda>row. take (nat (c1 - c0)) (drop (nat c0) row))
          (take (nat (r1 - r0)) (drop (nat r0) band)))"

text \<open>
  What the module uses of pyproj and of \<open>rasterio.warp\<close>: \<open>from_epsg\<close> is
  \<^verbatim>\<open>pyproj.CRS.from_epsg\<close>, \<open>transform src dst (x, y)\<close> is
  \<^verbatim>\<open>pyproj.Transformer.from_crs(src, dst, always_xy=True).transform(x, y)\<close> and
  \<open>calculate_default_transform src dst width height bounds dst_width dst_height\<close> is the
  function of that name.
\<close>

record 'crs libraries =
  from_epsg :: "int \<Rightarrow> py_error + 'crs"
  transform :: "'crs \<Rightarrow> 'crs \<Rightarrow> pyfloat \<times> pyfloat \<Rightarrow> py_error + (pyfloat \<times> pyfloat)"
  calculate_default_transform ::
    "'crs \<Rightarrow> 'crs \<Rightarrow> int \<Rightarrow> int \<Rightarrow> bounding_box \<Rightarrow> int \<Rightarrow> int \<Rightarrow> py_error + (affine \<times> int \<times> int)"

text \<open>
  The test both \<open>extract_values_at_coordinates\<close> and \<open>lee_filter\<close> make on a
  coordinate \<open>(lat, lon)\<close>:
  \<^verbatim>\<open>bounds.left <= coordinate[1] <= bounds.right and bounds.bottom <= coordinate[0] <= bounds.top\<close>
\<close>

definition in_bounds :: "bounding_box \<Rightarrow> pyfloat \<times> pyfloat \<Rightarrow> bool" where
  "in_bounds b coordinate =
     (fle (left b) (snd coordinate) \<and> fle (snd coordinate) (right b) \<and>
      fle (bottom b) (fst coordinate) \<and> fle (fst coordinate) (top b))"

section \<open>resample_and_extract_value\<close>

text \<open>
  Lines 30 to 39: the target reference system of the point and the point projected
  into it, \<open>(easting, northing)\<close>.
\<close>

definition reproject ::
  "'crs libraries \<Rightarrow> 'crs dataset \<Rightarrow> pyfloat \<times> pyfloat \<Rightarrow> py_error + ('crs \<times> pyfloat \<times> pyfloat)" where
  "reproject libs ds coordinate =
     (let src_crs = crs ds in
      and_then (get_utm_zone (snd coordinate)) (\<lambda>utm_zone.
      and_then (get_epsg_code utm_zone (hemisphere_of (fst coordinate))) (\<lambda>epsg_code.
      and_then (from_epsg libs epsg_code) (\<lambda>dst_crs.
      and_then (transform libs src_crs dst_crs (snd coordinate, fst coordinate)) (\<lambda>(easting, northing).
        Inr (dst_crs, easting, northing))))))"

text \<open>
  Lines 42 to 47: the two scale factors and the shape that is asked of
  \<open>calculate_default_transform\<close>.
  \<^verbatim>\<open>scale_factor_x = new_resolution_meters / old_resolution_meters\<close>,
  \<^verbatim>\<open>scale_factor_y = new_resolution_meters / old_resolution_meters\<close>,
  \<^verbatim>\<open>dst_width = int(dataset.width * scale_factor_x)\<close>,
  \<^verbatim>\<open>dst_height = int(dataset.height * scale_factor_y)\<close>.
  The quotient and the two products are operations on doubles.
\<close>

definition requested_shape :: "int \<Rightarrow> int \<Rightarrow> pyfloat \<Rightarrow> pyfloat \<Rightarrow> py_error + (int \<times> int)" where
  "requested_shape dataset_width dataset_height old_resolution_meters new_resolution_meters =
     and_then (float_truediv new_resolution_meters old_resolution_meters) (\<lambda>scale_factor_x.
     and_then (float_truediv new_resolution_meters old_resolution_meters) (\<lambda>scale_factor_y.
     and_then (int_to_double dataset_width) (\<lambda>w.
     and_then (py_int (double_mul w scale_factor_x)) (\<lambda>dst_width.
     and_then (int_to_double dataset_height) (\<lambda>h.
     and_then (py_int (double_mul h scale_factor_y)) (\<lambda>dst_height.
       Inr (dst_width, dst_height)))))))"

text \<open>Line 63: \<^verbatim>\<open>pixel_col, pixel_row = ~dst_transform * (easting, northing)\<close>\<close>

definition pixel_address :: "affine \<Rightarrow> pyfloat \<times> pyfloat \<Rightarrow> py_error + (pyfloat \<times> pyfloat)" where
  "pixel_address dst_transform p =
     and_then (affine_invert dst_transform) (\<lambda>inv. Inr (affine_mul inv p))"

text \<open>
  Lines 64 to 75: the \<^verbatim>\<open>try\<close> statement around
  \<^verbatim>\<open>data[int(pixel_row), int(pixel_col)]\<close>.  \<open>IndexError\<close> and \<open>ValueError\<close> are caught
  and give \<open>None\<close>, any other exception leaves the function.  The list \<open>values\<close> holds
  one element when the statement is left, which \<open>values[0]\<close> returns.
\<close>

definition extract_pixel :: "grid \<Rightarrow> pyfloat \<Rightarrow> pyfloat \<Rightarrow> py_error + pyfloat option" where
  "extract_pixel data pixel_row pixel_col =
     (case and_then (py_int pixel_row) (\<lambda>r.
           and_then (py_int pixel_col) (\<lambda>c. np_getitem2 data r c)) of
        Inr extracted_value \<Rightarrow>
          Inr (if isnan extracted_value then None else Some extracted_value)
      | Inl IndexError \<Rightarrow> Inr None
      | Inl ValueError \<Rightarrow> Inr None
      | Inl e \<Rightarrow> Inl e)"

text \<open>
  Lines 54 to 75: the band is read at the shape \<open>calculate_default_transform\<close>
  returned, then the pixel under the projected point is looked up.
\<close>

definition extract_from_resampled ::
  "'crs dataset \<Rightarrow> pyfloat \<times> pyfloat \<Rightarrow> affine \<times> int \<times> int \<Rightarrow> py_error + pyfloat option" where
  "extract_from_resampled ds p target =
     (case target of (dst_transform, dst_width, dst_height) \<Rightarrow>
        and_then (read ds 1 ((0, dst_height), (0, dst_width)) (Some (1, dst_height, dst_width)) bilinear)
          (\<lambda>data.
        and_then (pixel_address dst_transform p) (\<lambda>(pixel_col, pixel_row).
          extract_pixel data pixel_row pixel_col)))"

definition resample_and_extract_value ::
  "'crs libraries \<Rightarrow> 'crs dataset \<Rightarrow> pyfloat \<times> pyfloat \<Rightarrow> pyfloat \<Rightarrow> pyfloat
     \<Rightarrow> py_error + pyfloat option" where
  "resample_and_extract_value libs ds coordinate old_resolution_meters new_resolution_meters =
     and_then (reproject libs ds coordinate) (\<lambda>(dst_crs, easting, northing).
     and_then (requested_shape (width ds) (height ds) old_resolution_meters new_resolution_meters)
       (\<lambda>(dst_width, dst_height).
     and_then (calculate_default_transform libs (crs ds) dst_crs (width ds) (height ds) (bounds ds)
                 dst_width dst_height)
       (extract_from_resampled ds (easting, northing))))"

section \<open>extract_values_at_coordinates\<close>

text \<open>
  \<open>dataset.index\<close> is called before the \<^verbatim>\<open>try\<close> statement; the read and the
  \<open>[0, 0]\<close> on its result are inside, where only \<open>IndexError\<close> is caught.
\<close>

definition extract_values_at_coordinates ::
  "'crs dataset \<Rightarrow> pyfloat \<times> pyfloat \<Rightarrow> py_error + pyfloat option list" where
  "extract_values_at_coordinates ds coordinate =
     (if in_bounds (bounds ds) coordinate then
        and_then (index ds (snd coordinate) (fst coordinate)) (\<lambda>(row, col).
          case and_then (read ds 1 ((row, row + 1), (col, col + 1)) None nearest)
                 (\<lambda>a. np_getitem2 a 0 0) of
            Inr v \<Rightarrow> Inr ([] @ [Some v])
          | Inl IndexError \<Rightarrow> Inr ([] @ [None])
          | Inl e \<Rightarrow> Inl e)
      else Inr ([] @ [None]))"

section \<open>lee_filter\<close>

text \<open>
  Modelled from the spec: the sliding neighbourhood of size \<open>window_size\<close> with constant
  zero padding, which is \<open>scipy.ndimage.generic_filter\<close> and not part of the source.
  \<open>generic_filter(input, function, size=size, mode='constant')\<close> works on a
  two-dimensional array: at each position the function receives the \<open>size * size\<close>
  values under a square footprint, row by row, as a one-dimensional array.  The
  footprint element \<open>(di, dj)\<close>, see \<open>footprint_rows\<close>, lies over the input element
  \<open>(i + di - size // 2, j + dj - size // 2)\<close>; outside the array the value is the
  constant \<open>cval = 0.0\<close>.  The result has the shape of the input.  A footprint of size
  zero is refused with \<open>RuntimeError\<close>, a negative one with \<open>ValueError\<close>.
\<close>

definition get_padded :: "grid \<Rightarrow> int \<Rightarrow> int \<Rightarrow> pyfloat" where
  "get_padded a r c =
     (if 0 \<le> r \<and> r < int (length a) \<and> 0 \<le> c \<and> c < int (length (a ! nat r))
      then a ! nat r ! nat c else Finite 0)"

definition footprint_rows :: "grid \<Rightarrow> nat \<Rightarrow> nat \<Rightarrow> nat \<Rightarrow> grid" where
  "footprint_rows a n i j =
     map (\<lambda>di. map (\<lambda>dj.
        get_padded a (int i + int di - int (n div 2)) (int j + int dj - int (n div 2)))
          [0..<n]) [0..<n]"

definition footprint_values :: "grid \<Rightarrow> nat \<Rightarrow> nat \<Rightarrow> nat \<Rightarrow> pyfloat list" where
  "footprint_values a n i j = concat (footprint_rows a n i j)"

definition generic_filter ::
  "grid \<Rightarrow> (pyfloat list \<Rightarrow> py_error + pyfloat) \<Rightarrow> int \<Rightarrow> py_error + grid" where
  "generic_filter input func fsize =
     (if fsize < 0 then Inl ValueError
      else if fsize = 0 then Inl RuntimeError
      else collect (map (\<lambda>i. collect (map (\<lambda>j.
             func (footprint_values input (nat fsize) i j))
               [0..<length (input ! i)])) [0..<length input]))"

text \<open>
  The nested function of \<open>lee_filter\<close>.  A conditional expression evaluates its
  condition first and then one branch only.
\<close>

definition lee_filter_single_pixel :: "int \<Rightarrow> pyfloat list \<Rightarrow> py_error + pyfloat" where
  "lee_filter_single_pixel window_size w =
     (let local_mean = np_mean w;
          local_variance = np_var w
      in and_then (np_reshape2 w window_size window_size) (\<lambda>w2.
           if local_variance = Finite 0 then Inr local_mean
           else and_then (np_getitem2 w2 (window_size div 2) (window_size div 2)) (\<lambda>centre.
                  Inr (fdiv (fmul centre local_variance) (fadd local_variance (Finite 1))))))"

definition lee_filter ::
  "int \<Rightarrow> 'crs dataset \<Rightarrow> pyfloat \<times> pyfloat \<Rightarrow> py_error + grid option" where
  "lee_filter window_size ds coordinate =
     (let filtered_value = None in
      if in_bounds (bounds ds) coordinate then
        and_then (index ds (snd coordinate) (fst coordinate)) (\<lambda>(row, col).
          case and_then (read ds 1 ((row, row + window_size), (col, col + window_size)) None nearest)
                 (\<lambda>window. generic_filter window (lee_filter_single_pixel window_size) window_size) of
            Inr filtered \<Rightarrow> Inr (Some filtered)
          | Inl IndexError \<Rightarrow> Inr filtered_value
          | Inl e \<Rightarrow> Inl e)
      else Inr filtered_value)"

text \<open>
  The rule of the specification for one pixel: the mean of the neighbourhood where its
  variance is zero, otherwise \<open>centre * variance / (variance + 1)\<close>.
\<close>

definition lee_rule :: "pyfloat \<Rightarrow> pyfloat list \<Rightarrow> pyfloat" where
  "lee_rule centre nb =
     (if np_var nb = Finite 0 then np_mean nb
      else fdiv (fmul centre (np_var nb)) (fadd (np_var nb) (Finite 1)))"

section \<open>A raster held in memory\<close>

text \<open>
  A dataset and libraries to run the functions on: a north-up band of one unit per
  pixel whose upper left corner lies at \<open>(0, height)\<close>.  \<open>index\<close> takes the floor of the
  fractional pixel position, \<open>read\<close> is \<open>band_window\<close>.  The projection leaves a point
  where it is and the default transform is the one of the band.
\<close>

definition band_width :: "grid \<Rightarrow> nat" where
  "band_width band = (case band of [] \<Rightarrow> 0 | row # _ \<Rightarrow> length row)"

definition memory_dataset :: "grid \<Rightarrow> int dataset" where
  "memory_dataset band =
     \<lparr> crs = 4326,
       width = int (band_width band),
       height = int (length band),
       bounds = \<lparr> left = Finite 0, bottom = Finite 0,
                  right = Finite (real (band_width band)), top = Finite (real (length band)) \<rparr>,
       index = (\<lambda>x y. case (x, y) of
                  (Finite u, Finite v) \<Rightarrow> Inr (\<lfloor>real (length band) - v\<rfloor>, \<lfloor>u\<rfloor>)
                | _ \<Rightarrow> Inl ValueError),
       read = (\<lambda>band_no w out_shape how. Inr (band_window band w)) \<rparr>"

definition memory_libraries :: "int libraries" where
  "memory_libraries =
     \<lparr> from_epsg = Inr,
       transform = (\<lambda>src dst p. Inr p),
       calculate_default_transform = (\<lambda>src dst w h b dst_width dst_height.
          Inr (Affine (Finite 1) (Finite 0) (left b) (Finite 0) (Finite (- 1)) (top b),
               dst_width, dst_height)) \<rparr>"

definition sample_band :: grid where
  "sample_band =
     [[Finite 1, Finite 2, Finite 3, Finite 4],
      [Finite 5, Finite 6, Finite 7, Finite 8],
      [Finite 9, Finite 10, Finite 11, Finite 12],
      [Finite 13, Finite 14, Finite 15, Finite 16]]"

definition uniform_band :: grid where
  "uniform_band =
     [[Finite 5, Finite 5, Finite 5],
      [Finite 5, Finite 5, Finite 5],
      [Finite 5, Finite 5, Finite 5]]"

section \<open>Basic facts\<close>

lemma and_then_Inr [simp]: "and_then (Inr x) f = f x"
  by (simp add: and_then_def)

lemma and_then_Inl [simp]: "and_then (Inl e) f = Inl e"
  by (simp add: and_then_def)

lemma and_then_eq_Inr:
  "and_then m f = Inr y \<longleftrightarrow> (\<exists>x. m = Inr x \<and> f x = Inr y)"
  by (cases m) simp_all

lemma get_utm_zone_Finite:
  "get_utm_zone (Finite L) =
     Inr (if 60 < py_trunc ((L + 180) / 6) + 1 then 1 else py_trunc ((L + 180) / 6) + 1)"
  by (simp add: get_utm_zone_def py_truediv_def Let_def)

lemma py_trunc_nonneg: "0 \<le> x \<Longrightarrow> py_trunc x = \<lfloor>x\<rfloor>"
  by (simp add: py_trunc_def)

lemmas memory_defs = memory_dataset_def memory_libraries_def sample_band_def band_window_def
  band_width_def

lemmas array_defs = np_getitem2_def np_axis_index_def

lemmas sampler_defs = resample_and_extract_value_def reproject_def
  extract_from_resampled_def pixel_address_def extract_pixel_def py_truediv_def
  get_utm_zone_Finite get_epsg_code_def hemisphere_of_def py_trunc_def fsub_def isnan_def

lemma np_axis_index_Inl: "np_axis_index n i = Inl err \<Longrightarrow> err = IndexError"
  by (simp add: np_axis_index_def Let_def split: if_splits)

lemma np_getitem2_Inl: "np_getitem2 a r c = Inl err \<Longrightarrow> err = IndexError"
  unfolding np_getitem2_def
  by (cases "np_axis_index (length a) r"; cases "np_axis_index (length (a ! projr (np_axis_index (length a) r))) c")
     (auto dest: np_axis_index_Inl)

lemma extract_pixel_Finite:
  "extract_pixel data (Finite pr) (Finite pc) =
     (case np_getitem2 data (py_trunc pr) (py_trunc pc) of
        Inr v \<Rightarrow> Inr (if isnan v then None else Some v)
      | Inl err \<Rightarrow> Inr None)"
  by (cases "np_getitem2 data (py_trunc pr) (py_trunc pc)")
     (auto simp add: extract_pixel_def dest: np_getitem2_Inl)

lemma pixel_address_Finite:
  assumes "a * e - b * d \<noteq> 0"
  shows "\<exists>pc pr.
     pixel_address (Affine (Finite a) (Finite b) (Finite c) (Finite d) (Finite e) (Finite f))
        (Finite x, Finite y) = Inr (Finite pc, Finite pr)
     \<and> affine_mul (Affine (Finite a) (Finite b) (Finite c) (Finite d) (Finite e) (Finite f))
          (Finite pc, Finite pr) = (Finite x, Finite y)"
proof -
  define k where "k = 1 / (a * e - b * d)"
  define pc where "pc = x * (e * k) + y * (- b * k) + (- c * (e * k) - f * (- b * k))"
  define pr where "pr = x * (- d * k) + y * (a * k) + (- c * (- d * k) - f * (a * k))"
  have unit: "(a * e - b * d) * k = 1"
    using assms by (simp add: k_def)
  have addr: "pixel_address (Affine (Finite a) (Finite b) (Finite c) (Finite d) (Finite e) (Finite f))
        (Finite x, Finite y) = Inr (Finite pc, Finite pr)"
    using assms by (simp add: pixel_address_def fsub_def Let_def pc_def pr_def k_def)
  have "pc * a + pr * b + c = (x - c) * ((a * e - b * d) * k) + c"
    by (simp add: pc_def pr_def algebra_simps)
  then have X: "pc * a + pr * b + c = x"
    by (simp add: unit)
  have "pc * d + pr * e + f = (y - f) * ((a * e - b * d) * k) + f"
    by (simp add: pc_def pr_def algebra_simps)
  then have Y: "pc * d + pr * e + f = y"
    by (simp add: unit)
  have "affine_mul (Affine (Finite a) (Finite b) (Finite c) (Finite d) (Finite e) (Finite f))
          (Finite pc, Finite pr) = (Finite x, Finite y)"
    using X Y by simp
  with addr show ?thesis by blast
qed

lemma pow2_pos: "0 < pow2 k"
  by (simp add: pow2_def)

lemma round_half_even_of_int: "round_half_even (real_of_int k) = k"
  by (simp add: round_half_even_def)

lemma round_half_even_nonneg: "0 \<le> q \<Longrightarrow> 0 \<le> round_half_even q"
  by (auto simp add: round_half_even_def Let_def)

lemma double_round_nonneg:
  assumes "0 \<le> x" and "double_round x = Finite r"
  shows "0 \<le> r"
proof (cases "x = 0")
  case True
  then show ?thesis using assms by (simp add: double_round_def)
next
  case False
  let ?ulp = "pow2 (max (binade \<bar>x\<bar>) (- 1022) - 52)"
  have "0 \<le> \<bar>x\<bar> / ?ulp"
    using pow2_pos [of "max (binade \<bar>x\<bar>) (- 1022) - 52"] by simp
  then have "0 \<le> real_of_int (round_half_even (\<bar>x\<bar> / ?ulp)) * ?ulp"
    using round_half_even_nonneg pow2_pos [of "max (binade \<bar>x\<bar>) (- 1022) - 52"] by simp
  moreover have "r = real_of_int (round_half_even (\<bar>x\<bar> / ?ulp)) * ?ulp"
    using assms False by (simp add: double_round_def Let_def split: if_splits)
  ultimately show ?thesis by simp
qed

text \<open>An integer below \<open>2 ^ 53\<close> is a double.\<close>

lemma double_round_int:
  assumes "0 \<le> w" and "w < 2 ^ 53"
  shows "double_round (real_of_int w) = Finite (real_of_int w)"
proof (cases "w = 0")
  case True
  then show ?thesis by (simp add: double_round_def)
next
  case False
  then have pos: "0 < w" using assms by simp
  define L where "L = floorlog 2 (nat w)"
  have b: "2 ^ (L - 1) \<le> nat w" "nat w < 2 ^ L"
    using floorlog_bounds [of "nat w" 2] pos by (simp_all add: L_def)
  have L1: "1 \<le> L" using pos by (simp add: L_def floorlog_def)
  have "(2::nat) ^ (L - 1) < 2 ^ 53"
    using b(1) assms(2) pos
    by (metis le_less_trans nat_less_numeral_power_cancel_iff)
  then have "L - 1 < 53"
    using power_less_imp_less_exp [of 2 "L - 1" 53] by simp
  then have L53: "L \<le> 53" by simp
  have absw: "\<bar>real_of_int w\<bar> = real_of_int w" using pos by simp
  have bin: "binade \<bar>real_of_int w\<bar> = int L - 1"
    using pos by (simp add: binade_def L_def)
  define k where "k = 53 - L"
  have e: "max (int L - 1) (- 1022) - 52 = - int k" using L1 L53 by (simp add: k_def)
  have "pow2 (- int k) = 1 / 2 ^ k" by (cases k) (simp_all add: pow2_def nat_add_distrib)
  then have ulp: "pow2 (max (binade \<bar>real_of_int w\<bar>) (- 1022) - 52) = 1 / 2 ^ k"
    by (simp only: bin e)
  have q: "\<bar>real_of_int w\<bar> / (1 / 2 ^ k) = real_of_int (w * 2 ^ k)" using pos by simp
  have r: "real_of_int (round_half_even (\<bar>real_of_int w\<bar> / (1 / 2 ^ k))) * (1 / 2 ^ k)
      = real_of_int w"
    unfolding q round_half_even_of_int by simp
  have small: "\<not> 1023 < max (binade \<bar>real_of_int w\<bar>) (- 1022)"
    "max (binade \<bar>real_of_int w\<bar>) (- 1022) \<noteq> 1023"
    using bin L53 by simp_all
  show ?thesis
    unfolding double_round_def Let_def ulp r using pos small by simp
qed

lemma int_to_double_exact:
  "0 \<le> w \<Longrightarrow> w < 2 ^ 53 \<Longrightarrow> int_to_double w = Inr (Finite (real_of_int w))"
  by (simp add: int_to_double_def double_round_int)

lemma py_int_double_mul_nonneg:
  assumes "0 \<le> x" and "0 \<le> y" and "double_mul (Finite x) (Finite y) = Finite p"
  shows "py_int (double_mul (Finite x) (Finite y)) = Inr \<lfloor>p\<rfloor>"
proof -
  have "double_round (x * y) = Finite p"
    using assms(3) by (simp add: double_mul_def round_result_def)
  moreover have "0 \<le> x * y" using assms(1,2) by simp
  ultimately have "0 \<le> p" by (rule double_round_nonneg [rotated])
  then show ?thesis using assms(3) by (simp add: py_trunc_nonneg)
qed

lemma length_band_window:
  "length (band_window band ((r0, r1), (c0, c1))) = min (nat (r1 - r0)) (length band - nat r0)"
  by (simp add: band_window_def)

lemma band_window_row:
  assumes "i < length (band_window band ((r0, r1), (c0, c1)))"
  shows "band_window band ((r0, r1), (c0, c1)) ! i =
           take (nat (c1 - c0)) (drop (nat c0) (band ! (nat r0 + i)))"
proof -
  have i: "i < nat (r1 - r0)" "i < length band - nat r0"
    using assms by (simp_all add: length_band_window)
  then have "nat r0 \<le> length band" by simp
  then have "drop (nat r0) band ! i = band ! (nat r0 + i)" by (rule nth_drop)
  then show ?thesis using i by (simp add: band_window_def)
qed

lemma band_window_nth:
  assumes "i < length (band_window band ((r0, r1), (c0, c1)))"
    and "j < length (band_window band ((r0, r1), (c0, c1)) ! i)"
  shows "band_window band ((r0, r1), (c0, c1)) ! i ! j = band ! (nat r0 + i) ! (nat c0 + j)"
proof -
  have j: "j < nat (c1 - c0)" "j < length (band ! (nat r0 + i)) - nat c0"
    using assms by (simp_all add: band_window_row)
  then have "nat c0 \<le> length (band ! (nat r0 + i))" by simp
  then have "drop (nat c0) (band ! (nat r0 + i)) ! j = band ! (nat r0 + i) ! (nat c0 + j)"
    by (rule nth_drop)
  then show ?thesis using assms(1) j by (simp add: band_window_row)
qed

lemma lee_filter_not_in_bounds:
  "\<not> in_bounds (bounds ds) coordinate \<Longrightarrow> lee_filter window_size ds coordinate = Inr None"
  by (simp add: lee_filter_def)

section \<open>Facts about the filter\<close>

lemma collect_map_Inr:
  "collect (map f xs) = Inr ys \<Longrightarrow>
     length ys = length xs \<and> (\<forall>k<length xs. f (xs ! k) = Inr (ys ! k))"
proof (induction xs arbitrary: ys)
  case Nil
  then show ?case by simp
next
  case (Cons x xs)
  from Cons.prems obtain v vs where
    v: "f x = Inr v" and vs: "collect (map f xs) = Inr vs" and ys: "ys = v # vs"
    by (auto simp add: and_then_eq_Inr)
  from Cons.IH [OF vs] have
    len: "length vs = length xs" and nth: "\<forall>k<length xs. f (xs ! k) = Inr (vs ! k)"
    by simp_all
  show ?case
  proof (intro conjI allI impI)
    show "length ys = length (x # xs)" using len ys by simp
    fix k assume "k < length (x # xs)"
    then show "f ((x # xs) ! k) = Inr (ys ! k)"
      using v nth ys by (cases k) simp_all
  qed
qed

lemma collect_map_total:
  "(\<And>x. x \<in> set xs \<Longrightarrow> \<exists>y. f x = Inr y) \<Longrightarrow> \<exists>ys. collect (map f xs) = Inr ys"
proof (induction xs)
  case Nil
  then show ?case by simp
next
  case (Cons x xs)
  obtain y where "f x = Inr y" using Cons.prems by auto
  moreover obtain ys where "collect (map f xs) = Inr ys" using Cons by auto
  ultimately show ?case by simp
qed

lemma take_drop_concat_uniform:
  "\<forall>xs \<in> set xss. length xs = n \<Longrightarrow> r < length xss \<Longrightarrow>
     take n (drop (r * n) (concat xss)) = xss ! r"
proof (induction xss arbitrary: r)
  case Nil
  then show ?case by simp
next
  case (Cons ys xss)
  show ?case
  proof (cases r)
    case 0
    then show ?thesis using Cons.prems by simp
  next
    case (Suc q)
    then have "take n (drop (q * n) (concat xss)) = xss ! q"
      using Cons by simp
    moreover have "length ys = n" using Cons.prems by simp
    ultimately show ?thesis using Suc by simp
  qed
qed

lemma length_concat_uniform:
  "\<forall>xs \<in> set xss. length xs = n \<Longrightarrow> length (concat xss) = length xss * n"
  by (induction xss) simp_all

lemma nth_concat_uniform:
  assumes "\<forall>xs \<in> set xss. length xs = n" and "r < length xss" and "c < n"
  shows "concat xss ! (r * n + c) = xss ! r ! c"
proof -
  have "xss ! r ! c = take n (drop (r * n) (concat xss)) ! c"
    using take_drop_concat_uniform [OF assms(1,2)] by simp
  also have "\<dots> = concat xss ! (r * n + c)"
  proof -
    have "r * n + n \<le> length (concat xss)"
    proof -
      have "Suc r * n \<le> length xss * n" using assms(2) by (intro mult_le_mono1) simp
      then show ?thesis using length_concat_uniform [OF assms(1)] by simp
    qed
    then show ?thesis using assms(3) by simp
  qed
  finally show ?thesis by simp
qed

lemma footprint_values_rows: "footprint_values a n i j = concat (footprint_rows a n i j)"
  by (simp add: footprint_values_def)

lemma footprint_rows_uniform: "\<forall>xs \<in> set (footprint_rows a n i j). length xs = n"
  by (auto simp add: footprint_rows_def)

lemma length_footprint_rows: "length (footprint_rows a n i j) = n"
  by (simp add: footprint_rows_def)

lemma length_footprint_values: "length (footprint_values a n i j) = n * n"
  using length_concat_uniform [OF footprint_rows_uniform, of a n i j]
  by (simp add: footprint_values_rows length_footprint_rows)

lemma footprint_row: "r < n \<Longrightarrow>
  take n (drop (r * n) (footprint_values a n i j)) =
    map (\<lambda>dj. get_padded a (int i + int r - int (n div 2)) (int j + int dj - int (n div 2))) [0..<n]"
  using take_drop_concat_uniform [OF footprint_rows_uniform, of r a n i j]
  by (simp add: footprint_values_rows length_footprint_rows) (simp add: footprint_rows_def)

lemma footprint_values_nth:
  assumes "di < n" and "dj < n"
  shows "footprint_values a n i j ! (di * n + dj) =
           get_padded a (int i + int di - int (n div 2)) (int j + int dj - int (n div 2))"
  using nth_concat_uniform [OF footprint_rows_uniform, of di a n i j dj] assms
  by (simp add: footprint_values_rows length_footprint_rows) (simp add: footprint_rows_def)

lemma footprint_values_centre:
  assumes "0 < n" and "i < length a" and "j < length (a ! i)"
  shows "footprint_values a n i j ! ((n div 2) * n + n div 2) = a ! i ! j"
proof -
  have half: "n div 2 < n" using assms(1) by arith
  have "footprint_values a n i j ! ((n div 2) * n + n div 2) =
      get_padded a (int i + int (n div 2) - int (n div 2)) (int j + int (n div 2) - int (n div 2))"
    using half half by (rule footprint_values_nth)
  then show ?thesis using assms(2,3) by (simp add: get_padded_def)
qed

lemma footprint_reshape_centre:
  assumes "1 \<le> ws"
  shows "and_then (np_reshape2 (footprint_values a (nat ws) i j) ws ws)
           (\<lambda>w2. np_getitem2 w2 (ws div 2) (ws div 2)) = Inr (get_padded a (int i) (int j))"
proof -
  let ?n = "nat ws" and ?m = "nat (ws div 2)"
  let ?w = "footprint_values a ?n i j"
  have n: "int ?n = ws" using assms by simp
  have m: "?m < ?n" "0 \<le> ws div 2" "ws div 2 < ws" "?m = ?n div 2"
    using assms by (simp_all add: nat_div_distrib)
  have len: "int (length ?w) = ws * ws"
    using n by (simp add: length_footprint_values)
  have reshape: "np_reshape2 ?w ws ws = Inr (map (\<lambda>r. take ?n (drop (r * ?n) ?w)) [0..<?n])"
    using assms len by (simp add: np_reshape2_def)
  have row: "map (\<lambda>r. take ?n (drop (r * ?n) ?w)) [0..<?n] ! ?m =
      map (\<lambda>dj. get_padded a (int i + int ?m - int (?n div 2)) (int j + int dj - int (?n div 2))) [0..<?n]"
    using m(1) by (simp add: footprint_row)
  have ax1: "np_axis_index ?n (ws div 2) = Inr ?m"
    using m n by (simp add: np_axis_index_def)
  show ?thesis
    using reshape row ax1 m by (simp add: np_getitem2_def)
qed

lemma lee_filter_single_pixel_footprint:
  assumes "1 \<le> ws" and "i < length a" and "j < length (a ! i)"
  shows "lee_filter_single_pixel ws (footprint_values a (nat ws) i j) =
           Inr (lee_rule (a ! i ! j) (footprint_values a (nat ws) i j))"
proof -
  let ?w = "footprint_values a (nat ws) i j"
  have pad: "get_padded a (int i) (int j) = a ! i ! j"
    using assms(2,3) by (simp add: get_padded_def)
  obtain w2 where w2: "np_reshape2 ?w ws ws = Inr w2"
    and c: "np_getitem2 w2 (ws div 2) (ws div 2) = Inr (a ! i ! j)"
    using footprint_reshape_centre [OF assms(1), of a i j] pad
    by (auto simp add: and_then_eq_Inr)
  show ?thesis
    using w2 c by (simp add: lee_filter_single_pixel_def lee_rule_def Let_def)
qed

lemma generic_filter_Inr:
  assumes "generic_filter a f ws = Inr out"
  shows "1 \<le> ws \<and> length out = length a
         \<and> (\<forall>i<length a. length (out ! i) = length (a ! i)
              \<and> (\<forall>j<length (a ! i). f (footprint_values a (nat ws) i j) = Inr (out ! i ! j)))"
proof -
  have ws: "1 \<le> ws" using assms by (simp add: generic_filter_def split: if_splits)
  let ?row = "\<lambda>i. collect (map (\<lambda>j. f (footprint_values a (nat ws) i j)) [0..<length (a ! i)])"
  have c: "collect (map ?row [0..<length a]) = Inr out"
    using assms ws by (simp add: generic_filter_def)
  from collect_map_Inr [OF c] have
    len: "length out = length a" and rows: "\<forall>k<length a. ?row k = Inr (out ! k)"
    by simp_all
  have "length (out ! i) = length (a ! i)
      \<and> (\<forall>j<length (a ! i). f (footprint_values a (nat ws) i j) = Inr (out ! i ! j))"
    if "i < length a" for i
  proof -
    have "?row i = Inr (out ! i)" using rows that by simp
    from collect_map_Inr [OF this] show ?thesis by simp
  qed
  with ws len show ?thesis by simp
qed

lemma generic_filter_total:
  assumes "1 \<le> ws"
    and "\<And>i j. i < length a \<Longrightarrow> j < length (a ! i) \<Longrightarrow> \<exists>v. f (footprint_values a (nat ws) i j) = Inr v"
  shows "\<exists>out. generic_filter a f ws = Inr out"
proof -
  have "\<exists>ys. collect (map (\<lambda>i. collect (map (\<lambda>j. f (footprint_values a (nat ws) i j))
      [0..<length (a ! i)])) [0..<length a]) = Inr ys"
  proof (rule collect_map_total)
    fix i assume "i \<in> set [0..<length a]"
    then have i: "i < length a" by simp
    show "\<exists>y. collect (map (\<lambda>j. f (footprint_values a (nat ws) i j)) [0..<length (a ! i)]) = Inr y"
    proof (rule collect_map_total)
      fix j assume "j \<in> set [0..<length (a ! i)]"
      then show "\<exists>v. f (footprint_values a (nat ws) i j) = Inr v"
        using assms(2) [OF i] by simp
    qed
  qed
  then show ?thesis using assms(1) by (simp add: generic_filter_def)
qed

lemma lee_generic_filter:
  assumes "1 \<le> ws"
  shows "\<exists>out. generic_filter window (lee_filter_single_pixel ws) ws = Inr out
           \<and> length out = length window
           \<and> (\<forall>i<length window. length (out ! i) = length (window ! i)
                \<and> (\<forall>j<length (window ! i).
                      out ! i ! j = lee_rule (window ! i ! j) (footprint_values window (nat ws) i j)))"
proof -
  obtain out where out: "generic_filter window (lee_filter_single_pixel ws) ws = Inr out"
    using generic_filter_total [OF assms, of window "lee_filter_single_pixel ws"]
      lee_filter_single_pixel_footprint [OF assms] by blast
  from generic_filter_Inr [OF out] have
    len: "length out = length window"
    and rows: "\<forall>i<length window. length (out ! i) = length (window ! i)
       \<and> (\<forall>j<length (window ! i).
             lee_filter_single_pixel ws (footprint_values window (nat ws) i j) = Inr (out ! i ! j))"
    by simp_all
  have "out ! i ! j = lee_rule (window ! i ! j) (footprint_values window (nat ws) i j)"
    if "i < length window" "j < length (window ! i)" for i j
    using rows that lee_filter_single_pixel_footprint [OF assms that] by simp
  with out len rows show ?thesis by blast
qed

lemma lee_filter_in_bounds:
  assumes "in_bounds (bounds ds) coordinate"
    and "index ds (snd coordinate) (fst coordinate) = Inr (row, col)"
    and "read ds 1 ((row, row + ws), (col, col + ws)) None nearest = Inr window"
    and "generic_filter window (lee_filter_single_pixel ws) ws = Inr out"
  shows "lee_filter ws ds coordinate = Inr (Some out)"
  using assms by (simp add: lee_filter_def)

section \<open>The UTM zone\<close>

text \<open>
  Claim C3, as the code has it.  \<open>get_utm_zone\<close> computes
  \<open>int((longitude + 180) / 6) + 1\<close>, where \<open>int\<close> rounds toward zero, and resets the
  result to 1 if it exceeds 60.  From \<open>-180\<close> upward rounding toward zero is the floor,
  so there the zone is the floor formula of the specification.  For every longitude in
  \<open>[-180, 180)\<close> the zone lies in \<open>[1, 60]\<close>; the zone of \<open>179.9999\<close> is 60 and the zone
  of \<open>-180\<close> is 1.
\<close>

theorem get_utm_zone_truncates:
  "get_utm_zone (Finite L) =
     Inr (if 60 < py_trunc ((L + 180) / 6) + 1 then 1 else py_trunc ((L + 180) / 6) + 1)
   \<and> (- 180 \<le> L \<longrightarrow> get_utm_zone (Finite L) = Inr (utm_zone_spec L))
   \<and> (- 180 \<le> L \<and> L < 180 \<longrightarrow>
        (\<exists>z. get_utm_zone (Finite L) = Inr z \<and> 1 \<le> z \<and> z \<le> 60))
   \<and> get_utm_zone (Finite (1799999 / 10000)) = Inr 60
   \<and> get_utm_zone (Finite (- 180)) = Inr 1"
proof -
  have lo: "py_trunc ((L + 180) / 6) = \<lfloor>(L + 180) / 6\<rfloor>" if "- 180 \<le> L"
    using that by (simp add: py_trunc_def)
  have floor_eq: "get_utm_zone (Finite L) = Inr (utm_zone_spec L)" if "- 180 \<le> L"
    using lo [OF that] by (simp add: get_utm_zone_Finite utm_zone_spec_def Let_def)
  have range: "\<exists>z. get_utm_zone (Finite L) = Inr z \<and> 1 \<le> z \<and> z \<le> 60"
    if "- 180 \<le> L \<and> L < 180"
  proof -
    have "0 \<le> \<lfloor>(L + 180) / 6\<rfloor>" using that by simp
    then show ?thesis using that lo by (simp add: get_utm_zone_Finite)
  qed
  have v1: "get_utm_zone (Finite (1799999 / 10000)) = Inr 60"
    by (simp add: get_utm_zone_Finite py_trunc_def)
  have v2: "get_utm_zone (Finite (- 180)) = Inr 1"
    by (simp add: get_utm_zone_Finite py_trunc_def)
  show ?thesis using get_utm_zone_Finite floor_eq range v1 v2 by blast
qed

text \<open>The theorem at longitude \<open>7.5\<close>, which lies in zone 32.\<close>

theorem get_utm_zone_truncates_witness:
  "(- 180 \<le> (15/2::real) \<and> (15/2::real) < 180) \<and> get_utm_zone (Finite (15/2)) = Inr 32
   \<and> utm_zone_spec (15/2) = 32"
  using get_utm_zone_truncates [where L = "15/2"]
  by (simp add: py_trunc_def utm_zone_spec_def)

text \<open>
  Claim C3 as the specification words it fails below \<open>-180\<close>: at longitude \<open>-183\<close> the
  quotient is \<open>-0.5\<close>, which \<open>int\<close> takes to 0 and the floor to \<open>-1\<close>.  The code returns
  zone 1, the floor formula gives 0.
\<close>

theorem get_utm_zone_floor_counterexample:
  "get_utm_zone (Finite (- 183)) = Inr 1 \<and> utm_zone_spec (- 183) = 0
   \<and> get_utm_zone (Finite (- 183)) \<noteq> Inr (utm_zone_spec (- 183))"
  by (simp add: get_utm_zone_Finite py_trunc_def utm_zone_spec_def)

section \<open>The EPSG code\<close>

text \<open>
  Claim C9.  \<open>get_epsg_code\<close> returns \<open>32600 + zone\<close> for the hemisphere \<open>'N'\<close>, which
  the caller derives from a latitude of at least 0, and \<open>32700 + zone\<close> for \<open>'S'\<close>;
  zone 31 gives 32631 in the north and 32731 in the south.
\<close>

theorem get_epsg_code_values:
  "get_epsg_code zone ''N'' = Inr (32600 + zone)
   \<and> get_epsg_code zone ''S'' = Inr (32700 + zone)
   \<and> (0 \<le> lat \<longrightarrow> get_epsg_code zone (hemisphere_of (Finite lat)) = Inr (32600 + zone))
   \<and> (lat < 0 \<longrightarrow> get_epsg_code zone (hemisphere_of (Finite lat)) = Inr (32700 + zone))
   \<and> get_epsg_code 31 ''N'' = Inr 32631
   \<and> get_epsg_code 31 ''S'' = Inr 32731"
  by (simp add: get_epsg_code_def hemisphere_of_def)

text \<open>The theorem in zone 17, at the latitudes 52 and \<open>-33\<close>.\<close>

theorem get_epsg_code_values_witness:
  "(0::real) \<le> 52 \<and> get_epsg_code 17 (hemisphere_of (Finite 52)) = Inr 32617
   \<and> (- 33 :: real) < 0 \<and> get_epsg_code 17 (hemisphere_of (Finite (- 33))) = Inr 32717"
  using get_epsg_code_values [where lat = 52 and zone = 17]
    get_epsg_code_values [where lat = "- 33" and zone = 17] by simp

text \<open>
  Claim C4, as the code has it.  For every hemisphere that is neither \<open>'N'\<close> nor \<open>'S'\<close>
  the call of \<open>get_epsg_code\<close> returns no value: it fails with \<open>UnboundLocalError\<close>,
  raised by reading the local \<open>epsg_code\<close> that no branch assigned.
\<close>

theorem get_epsg_code_other_hemisphere:
  "hemisphere \<noteq> ''N'' \<Longrightarrow> hemisphere \<noteq> ''S'' \<Longrightarrow>
     get_epsg_code zone hemisphere = Inl UnboundLocalError"
  by (simp add: get_epsg_code_def)

text \<open>The theorem at the hemisphere \<open>'X'\<close> in zone 31.\<close>

theorem get_epsg_code_other_hemisphere_witness:
  "''X'' \<noteq> ''N'' \<and> ''X'' \<noteq> ''S'' \<and> get_epsg_code 31 ''X'' = Inl UnboundLocalError"
  using get_epsg_code_other_hemisphere [where hemisphere = "''X''" and zone = 31] by simp

text \<open>
  Claim C4 as the specification words it fails: with the hemisphere \<open>'X'\<close> the exception
  is not \<open>UnsupportedHemisphereError\<close>.
\<close>

theorem get_epsg_code_unsupported_counterexample:
  "''X'' \<noteq> ''N'' \<and> ''X'' \<noteq> ''S''
   \<and> get_epsg_code 31 ''X'' \<noteq> Inl UnsupportedHemisphereError"
  by (simp add: get_epsg_code_def)

section \<open>The resampling sampler\<close>

text \<open>
  Claim C6.  In \<open>resample_and_extract_value\<close> the shape asked of
  \<open>calculate_default_transform\<close> comes from the one factor
  \<open>new_resolution_meters / old_resolution_meters\<close>, used for both axes: the requested
  width is the floor of \<open>width * factor\<close> and the requested height the floor of
  \<open>height * factor\<close>.  The resolutions are positive lengths, the quotient and the products
  are those of doubles and are finite, and the dimensions of a raster are integers that
  doubles hold exactly.
\<close>

theorem requested_shape_floor:
  assumes "0 < old" and "0 \<le> new"
    and "0 \<le> width ds" and "width ds < 2 ^ 53"
    and "0 \<le> height ds" and "height ds < 2 ^ 53"
    and factor: "double_div (Finite new) (Finite old) = Finite factor"
    and pw: "double_mul (Finite (real_of_int (width ds))) (Finite factor) = Finite pw"
    and ph: "double_mul (Finite (real_of_int (height ds))) (Finite factor) = Finite ph"
  shows "requested_shape (width ds) (height ds) (Finite old) (Finite new) = Inr (\<lfloor>pw\<rfloor>, \<lfloor>ph\<rfloor>)
         \<and> (reproject libs ds coordinate = Inr (dst_crs, easting, northing) \<longrightarrow>
              resample_and_extract_value libs ds coordinate (Finite old) (Finite new) =
                and_then (calculate_default_transform libs (crs ds) dst_crs (width ds) (height ds)
                            (bounds ds) \<lfloor>pw\<rfloor> \<lfloor>ph\<rfloor>)
                  (extract_from_resampled ds (easting, northing)))"
proof -
  have scale: "float_truediv (Finite new) (Finite old) = Inr (Finite factor)"
    using assms(1) factor by (simp add: float_truediv_def)
  have "double_round (new / old) = Finite factor"
    using assms(1) factor by (simp add: double_div_def round_result_def)
  moreover have "0 \<le> new / old" using assms(1,2) by simp
  ultimately have nonneg: "0 \<le> factor" by (rule double_round_nonneg [rotated])
  have w: "int_to_double (width ds) = Inr (Finite (real_of_int (width ds)))"
    using assms(3,4) by (rule int_to_double_exact)
  have h: "int_to_double (height ds) = Inr (Finite (real_of_int (height ds)))"
    using assms(5,6) by (rule int_to_double_exact)
  have iw: "py_int (double_mul (Finite (real_of_int (width ds))) (Finite factor)) = Inr \<lfloor>pw\<rfloor>"
    using assms(3) nonneg pw by (intro py_int_double_mul_nonneg) simp_all
  have ih: "py_int (double_mul (Finite (real_of_int (height ds))) (Finite factor)) = Inr \<lfloor>ph\<rfloor>"
    using assms(5) nonneg ph by (intro py_int_double_mul_nonneg) simp_all
  have shape: "requested_shape (width ds) (height ds) (Finite old) (Finite new) = Inr (\<lfloor>pw\<rfloor>, \<lfloor>ph\<rfloor>)"
    by (simp add: requested_shape_def scale w h iw ih)
  have "resample_and_extract_value libs ds coordinate (Finite old) (Finite new) =
      and_then (calculate_default_transform libs (crs ds) dst_crs (width ds) (height ds)
                  (bounds ds) \<lfloor>pw\<rfloor> \<lfloor>ph\<rfloor>)
        (extract_from_resampled ds (easting, northing))"
    if "reproject libs ds coordinate = Inr (dst_crs, easting, northing)"
    using that shape by (simp add: resample_and_extract_value_def)
  with shape show ?thesis by simp
qed

text \<open>
  The theorem on a raster of 11 by 11 pixels, from a resolution of 11 to one of 15.  The
  factor is the double next to \<open>15 / 11\<close>, its product with 11 is the double
  \<open>14.999999999999998\<close> and the requested shape is 14 by 14, with which
  \<open>calculate_default_transform\<close> is called.
\<close>

theorem requested_shape_floor_witness:
  "(0::real) < 11 \<and> (0::real) \<le> 15 \<and> (0::int) \<le> 11 \<and> (11::int) < 2 ^ 53
   \<and> double_div (Finite 15) (Finite 11) = Finite (6141272219141585 / 4503599627370496)
   \<and> double_mul (Finite 11) (Finite (6141272219141585 / 4503599627370496))
       = Finite (8444249301319679 / 562949953421312)
   \<and> \<lfloor>8444249301319679 / 562949953421312 :: real\<rfloor> = 14
   \<and> requested_shape 11 11 (Finite 11) (Finite 15) = Inr (14, 14)
   \<and> reproject memory_libraries ((memory_dataset sample_band)\<lparr>width := 11, height := 11\<rparr>)
        (Finite (5/2), Finite (3/2)) = Inr (32631, Finite (3/2), Finite (5/2))
   \<and> resample_and_extract_value memory_libraries
        ((memory_dataset sample_band)\<lparr>width := 11, height := 11\<rparr>)
        (Finite (5/2), Finite (3/2)) (Finite 11) (Finite 15) =
       and_then (calculate_default_transform memory_libraries 4326 32631 11 11
                   (bounds (memory_dataset sample_band)) 14 14)
         (extract_from_resampled ((memory_dataset sample_band)\<lparr>width := 11, height := 11\<rparr>)
            (Finite (3/2), Finite (5/2)))"
proof -
  let ?ds = "(memory_dataset sample_band)\<lparr>width := 11, height := 11\<rparr>"
  have old: "(0::real) < 11" and new: "(0::real) \<le> 15" by simp_all
  have w0: "0 \<le> width ?ds" and w1: "width ?ds < 2 ^ 53"
    and h0: "0 \<le> height ?ds" and h1: "height ?ds < 2 ^ 53"
    by simp_all
  have f: "double_div (Finite 15) (Finite 11) = Finite (6141272219141585 / 4503599627370496)"
    by code_simp
  have p: "double_mul (Finite 11) (Finite (6141272219141585 / 4503599627370496))
      = Finite (8444249301319679 / 562949953421312)"
    by code_simp
  have pw: "double_mul (Finite (real_of_int (width ?ds))) (Finite (6141272219141585 / 4503599627370496))
      = Finite (8444249301319679 / 562949953421312)"
    and ph: "double_mul (Finite (real_of_int (height ?ds))) (Finite (6141272219141585 / 4503599627370496))
      = Finite (8444249301319679 / 562949953421312)"
    using p by simp_all
  have fl: "\<lfloor>8444249301319679 / 562949953421312 :: real\<rfloor> = 14" by simp
  have proj: "reproject memory_libraries ?ds (Finite (5/2), Finite (3/2))
      = Inr (32631, Finite (3/2), Finite (5/2))"
    by (simp add: memory_defs sampler_defs Let_def)
  have sel: "width ?ds = 11" "height ?ds = 11" "crs ?ds = 4326"
    "bounds ?ds = bounds (memory_dataset sample_band)"
    by (simp_all add: memory_defs)
  show ?thesis
    using requested_shape_floor [OF old new w0 w1 h0 h1 f pw ph,
        where libs = memory_libraries and coordinate = "(Finite (5/2), Finite (3/2))"
        and dst_crs = 32631 and easting = "Finite (3/2)" and northing = "Finite (5/2)"]
      f p proj
    by (simp add: sel fl)
qed

text \<open>
  Claim C5.  In \<open>resample_and_extract_value\<close> the pixel address of the projected point
  is the inverse of the target transform, as \<open>calculate_default_transform\<close> returned it,
  applied to \<open>(easting, northing)\<close>: the fractional \<open>(column, row)\<close> is the point the
  transform maps to \<open>(easting, northing)\<close>.  Both are truncated toward zero, and the
  resampled grid is indexed at the truncated \<open>(row, column)\<close>.
\<close>

theorem pixel_address_inverse_truncated:
  assumes proj: "reproject libs ds coordinate = Inr (dst_crs, Finite easting, Finite northing)"
    and shape: "requested_shape (width ds) (height ds) old_res new_res = Inr (req_width, req_height)"
    and target: "calculate_default_transform libs (crs ds) dst_crs (width ds) (height ds) (bounds ds)
           req_width req_height = Inr (dst_transform, dst_width, dst_height)"
    and band: "read ds 1 ((0, dst_height), (0, dst_width)) (Some (1, dst_height, dst_width)) bilinear
           = Inr data"
    and coeffs: "dst_transform = Affine (Finite a) (Finite b) (Finite c) (Finite d) (Finite e) (Finite f)"
    and det: "a * e - b * d \<noteq> 0"
  shows "\<exists>pixel_col pixel_row.
           pixel_address dst_transform (Finite easting, Finite northing)
             = Inr (Finite pixel_col, Finite pixel_row)
         \<and> affine_mul dst_transform (Finite pixel_col, Finite pixel_row)
             = (Finite easting, Finite northing)
         \<and> resample_and_extract_value libs ds coordinate old_res new_res =
             (case np_getitem2 data (py_trunc pixel_row) (py_trunc pixel_col) of
                Inr v \<Rightarrow> Inr (if isnan v then None else Some v)
              | Inl err \<Rightarrow> Inr None)"
proof -
  obtain pc pr where
    addr: "pixel_address dst_transform (Finite easting, Finite northing) = Inr (Finite pc, Finite pr)"
    and preimage: "affine_mul dst_transform (Finite pc, Finite pr) = (Finite easting, Finite northing)"
    using pixel_address_Finite [OF det] coeffs by blast
  have "resample_and_extract_value libs ds coordinate old_res new_res =
      extract_pixel data (Finite pr) (Finite pc)"
    using proj shape target band addr
    by (simp add: resample_and_extract_value_def extract_from_resampled_def)
  then show ?thesis using addr preimage extract_pixel_Finite by metis
qed

text \<open>
  The theorem on the sample band at latitude \<open>2.1\<close> and longitude \<open>1.9\<close>: the fractional
  address is \<open>(1.9, 1.9)\<close>, which truncates to \<open>(1, 1)\<close>, the pixel of value 6; rounding
  would have chosen \<open>(2, 2)\<close>.
\<close>

theorem pixel_address_inverse_truncated_witness:
  "resample_and_extract_value memory_libraries (memory_dataset sample_band)
      (Finite (21/10), Finite (19/10)) (Finite 1) (Finite 1) = Inr (Some (Finite 6))
   \<and> pixel_address (Affine (Finite 1) (Finite 0) (Finite 0) (Finite 0) (Finite (- 1)) (Finite 4))
        (Finite (19/10), Finite (21/10)) = Inr (Finite (19/10), Finite (19/10))
   \<and> py_trunc (19/10) = 1
   \<and> np_getitem2 sample_band 1 1 = Inr (Finite 6)"
proof -
  have 1: "reproject memory_libraries (memory_dataset sample_band) (Finite (21/10), Finite (19/10))
      = Inr (32631, Finite (19/10), Finite (21/10))"
    by (simp add: memory_defs sampler_defs Let_def)
  have 2: "requested_shape (width (memory_dataset sample_band)) (height (memory_dataset sample_band))
      (Finite 1) (Finite 1) = Inr (4, 4)"
    by code_simp
  have 3: "calculate_default_transform memory_libraries (crs (memory_dataset sample_band)) 32631
      (width (memory_dataset sample_band)) (height (memory_dataset sample_band))
      (bounds (memory_dataset sample_band)) 4 4
      = Inr (Affine (Finite 1) (Finite 0) (Finite 0) (Finite 0) (Finite (- 1)) (Finite 4), 4, 4)"
    by (simp add: memory_defs)
  have 4: "read (memory_dataset sample_band) 1 ((0, 4), (0, 4)) (Some (1, 4, 4)) bilinear
      = Inr sample_band"
    by (simp add: memory_defs)
  have 5: "(1::real) * (- 1) - 0 * 0 \<noteq> 0" by simp
  have p: "pixel_address (Affine (Finite 1) (Finite 0) (Finite 0) (Finite 0) (Finite (- 1)) (Finite 4))
        (Finite (19/10), Finite (21/10)) = Inr (Finite (19/10), Finite (19/10))"
    by (simp add: sampler_defs Let_def)
  have t: "py_trunc (19/10) = 1" by (simp add: py_trunc_def)
  have g: "np_getitem2 sample_band 1 1 = Inr (Finite 6)"
    by (simp add: sample_band_def array_defs)
  obtain pc pr where
    a: "pixel_address (Affine (Finite 1) (Finite 0) (Finite 0) (Finite 0) (Finite (- 1)) (Finite 4))
          (Finite (19/10), Finite (21/10)) = Inr (Finite pc, Finite pr)"
    and r: "resample_and_extract_value memory_libraries (memory_dataset sample_band)
          (Finite (21/10), Finite (19/10)) (Finite 1) (Finite 1) =
        (case np_getitem2 sample_band (py_trunc pr) (py_trunc pc) of
           Inr v \<Rightarrow> Inr (if isnan v then None else Some v)
         | Inl err \<Rightarrow> Inr None)"
    using pixel_address_inverse_truncated [OF 1 2 3 4 refl 5] by blast
  from a p have "pc = 19/10" and "pr = 19/10" by simp_all
  with r t g have "resample_and_extract_value memory_libraries (memory_dataset sample_band)
      (Finite (21/10), Finite (19/10)) (Finite 1) (Finite 1) = Inr (Some (Finite 6))"
    by (simp add: isnan_def)
  with p t g show ?thesis by simp
qed

text \<open>
  Claim C1 fails on the code.  The point at latitude \<open>5.5\<close> and longitude \<open>-1.5\<close> lies
  outside the extent of the sample band, one and a half pixels beyond its upper left
  corner.  Its fractional address \<open>(-1.5, -1.5)\<close> truncates to \<open>(-1, -1)\<close>, which numpy
  counts from the end of each axis: the function returns the value 16 of the opposite
  corner instead of \<open>None\<close>.
\<close>

theorem resample_outside_extent_value:
  "\<not> in_bounds (bounds (memory_dataset sample_band)) (Finite (11/2), Finite (- 3/2))
   \<and> resample_and_extract_value memory_libraries (memory_dataset sample_band)
        (Finite (11/2), Finite (- 3/2)) (Finite 1) (Finite 1) = Inr (Some (Finite 16))"
  by code_simp

section \<open>The nearest-pixel extractor\<close>

text \<open>
  Claim C10.  Whenever \<open>extract_values_at_coordinates\<close> returns, it returns a list of
  exactly one element: \<open>None\<close>, or the value \<open>[0, 0]\<close> of what the one-pixel read at the
  point's \<open>(row, col)\<close> returned.
\<close>

theorem extract_values_singleton:
  assumes "extract_values_at_coordinates ds coordinate = Inr values"
  shows "length values = 1
         \<and> (values = [None]
            \<or> (\<exists>row col a v.
                  index ds (snd coordinate) (fst coordinate) = Inr (row, col)
                  \<and> read ds 1 ((row, row + 1), (col, col + 1)) None nearest = Inr a
                  \<and> np_getitem2 a 0 0 = Inr v \<and> values = [Some v]))"
proof (cases "in_bounds (bounds ds) coordinate")
  case False
  then show ?thesis using assms by (auto simp add: extract_values_at_coordinates_def)
next
  case True
  then obtain row col where i: "index ds (snd coordinate) (fst coordinate) = Inr (row, col)"
    using assms by (cases "index ds (snd coordinate) (fst coordinate)")
      (auto simp add: extract_values_at_coordinates_def)
  show ?thesis
  proof (cases "read ds 1 ((row, row + 1), (col, col + 1)) None nearest")
    case (Inl e)
    then show ?thesis using assms True i
      by (cases e) (auto simp add: extract_values_at_coordinates_def)
  next
    case (Inr a)
    show ?thesis
    proof (cases "np_getitem2 a 0 0")
      case (Inl e)
      then show ?thesis using assms True i Inr
        by (cases e) (auto simp add: extract_values_at_coordinates_def)
    next
      case (Inr v)
      then show ?thesis using assms True i \<open>read ds 1 ((row, row + 1), (col, col + 1)) None nearest = Inr a\<close>
        by (auto simp add: extract_values_at_coordinates_def)
    qed
  qed
qed

text \<open>The theorem on the sample band at latitude \<open>2.5\<close> and longitude \<open>1.5\<close>.\<close>

theorem extract_values_singleton_witness:
  "extract_values_at_coordinates (memory_dataset sample_band) (Finite (5/2), Finite (3/2))
     = Inr [Some (Finite 6)]
   \<and> length [Some (Finite 6)] = 1"
proof -
  have e: "extract_values_at_coordinates (memory_dataset sample_band) (Finite (5/2), Finite (3/2))
     = Inr [Some (Finite 6)]"
    by (simp add: extract_values_at_coordinates_def memory_defs array_defs in_bounds_def)
  show ?thesis using extract_values_singleton [OF e] e by simp
qed

section \<open>The Lee filter\<close>

text \<open>
  Claim C8.  For every point strictly outside the bounds of the raster, the longitude
  compared with \<open>left\<close> and \<open>right\<close> and the latitude with \<open>bottom\<close> and \<open>top\<close>,
  \<open>lee_filter\<close> returns \<open>None\<close>.
\<close>

theorem lee_filter_outside_bounds:
  assumes "bounds ds = \<lparr> left = Finite l, bottom = Finite b, right = Finite r, top = Finite t \<rparr>"
    and "lon < l \<or> r < lon \<or> lat < b \<or> t < lat"
  shows "lee_filter window_size ds (Finite lat, Finite lon) = Inr None"
proof -
  have "\<not> in_bounds (bounds ds) (Finite lat, Finite lon)"
    using assms by (auto simp add: in_bounds_def)
  then show ?thesis by (rule lee_filter_not_in_bounds)
qed

text \<open>The theorem on the sample band at the point \<open>(999, 999)\<close>.\<close>

theorem lee_filter_outside_bounds_witness:
  "lee_filter 3 (memory_dataset sample_band) (Finite 999, Finite 999) = Inr None
   \<and> (4::real) < 999"
proof -
  have b: "bounds (memory_dataset sample_band) =
      \<lparr> left = Finite 0, bottom = Finite 0, right = Finite 4, top = Finite 4 \<rparr>"
    by (simp add: memory_defs)
  have o: "(999::real) < 0 \<or> (4::real) < 999 \<or> (999::real) < 0 \<or> (4::real) < 999" by simp
  show ?thesis using lee_filter_outside_bounds [OF b o, of 3] by simp
qed

text \<open>
  Claim C2.  Let \<open>lee_filter\<close> process the window it read at an in-bounds point, with a
  window size of at least 1.  Then it returns a grid whose value at every position
  \<open>(i, j)\<close> of the window is the mean of the neighbourhood of \<open>(i, j)\<close> where the
  variance of the neighbourhood is zero, and otherwise the window's value at \<open>(i, j)\<close>
  times the variance, divided by the variance plus one.  The neighbourhood holds
  \<open>window_size * window_size\<close> values: those of the window around \<open>(i, j)\<close>, with zero
  where the window ends, and its centre is the window's value at \<open>(i, j)\<close>.
\<close>

theorem lee_filter_pixel_rule:
  assumes "in_bounds (bounds ds) coordinate"
    and "index ds (snd coordinate) (fst coordinate) = Inr (row, col)"
    and "read ds 1 ((row, row + window_size), (col, col + window_size)) None nearest = Inr window"
    and "1 \<le> window_size"
  shows "\<exists>out. lee_filter window_size ds coordinate = Inr (Some out)
           \<and> (\<forall>i<length window. \<forall>j<length (window ! i).
                 out ! i ! j =
                   lee_rule (window ! i ! j) (footprint_values window (nat window_size) i j)
                 \<and> length (footprint_values window (nat window_size) i j)
                     = nat window_size * nat window_size
                 \<and> footprint_values window (nat window_size) i j
                       ! ((nat window_size div 2) * nat window_size + nat window_size div 2)
                     = window ! i ! j
                 \<and> (\<forall>di<nat window_size. \<forall>dj<nat window_size.
                       footprint_values window (nat window_size) i j ! (di * nat window_size + dj)
                         = get_padded window (int i + int di - int (nat window_size div 2))
                             (int j + int dj - int (nat window_size div 2))))"
proof -
  obtain out where out: "generic_filter window (lee_filter_single_pixel window_size) window_size = Inr out"
    and px: "\<forall>i<length window. length (out ! i) = length (window ! i)
                \<and> (\<forall>j<length (window ! i).
                      out ! i ! j = lee_rule (window ! i ! j) (footprint_values window (nat window_size) i j))"
    using lee_generic_filter [OF assms(4), of window] by blast
  have "lee_filter window_size ds coordinate = Inr (Some out)"
    using assms(1-3) out by (rule lee_filter_in_bounds)
  moreover have "footprint_values window (nat window_size) i j
        ! ((nat window_size div 2) * nat window_size + nat window_size div 2) = window ! i ! j"
    if "i < length window" "j < length (window ! i)" for i j
    using that assms(4) by (intro footprint_values_centre) simp_all
  ultimately show ?thesis
    using px by (simp add: length_footprint_values footprint_values_nth)
qed

text \<open>
  The theorem on a band of 3 by 3 pixels of value 5 with a window of size 3: in the
  middle the variance is zero and the output is the mean 5, in the corner five of the
  nine neighbours are padding and the output is \<open>5 * (500/81) / (500/81 + 1)\<close>.
\<close>

theorem lee_filter_pixel_rule_witness:
  "\<exists>out. lee_filter 3 (memory_dataset uniform_band) (Finite 3, Finite 0) = Inr (Some out)
     \<and> np_var (footprint_values uniform_band 3 1 1) = Finite 0
     \<and> np_mean (footprint_values uniform_band 3 1 1) = Finite 5
     \<and> out ! 1 ! 1 = Finite 5
     \<and> np_var (footprint_values uniform_band 3 0 0) = Finite (500 / 81)
     \<and> out ! 0 ! 0 = Finite (2500 / 581)"
proof -
  have b: "in_bounds (bounds (memory_dataset uniform_band)) (Finite 3, Finite 0)"
    by (simp add: memory_dataset_def band_width_def uniform_band_def in_bounds_def)
  have i: "index (memory_dataset uniform_band) (snd (Finite 3, Finite 0)) (fst (Finite 3, Finite 0))
      = Inr (0, 0)"
    by (simp add: memory_dataset_def uniform_band_def)
  have r: "read (memory_dataset uniform_band) 1 ((0, 0 + 3), (0, 0 + 3)) None nearest
      = Inr uniform_band"
    by (simp add: memory_dataset_def band_window_def uniform_band_def)
  have w: "(1::int) \<le> 3" by simp
  have v11: "np_var (footprint_values uniform_band 3 1 1) = Finite 0"
    by code_simp
  have m11: "np_mean (footprint_values uniform_band 3 1 1) = Finite 5"
    by code_simp
  have v00: "np_var (footprint_values uniform_band 3 0 0) = Finite (500 / 81)"
    by code_simp
  obtain out where
    o: "lee_filter 3 (memory_dataset uniform_band) (Finite 3, Finite 0) = Inr (Some out)"
    and px: "\<forall>i<length uniform_band. \<forall>j<length (uniform_band ! i).
        out ! i ! j = lee_rule (uniform_band ! i ! j) (footprint_values uniform_band (nat 3) i j)"
    using lee_filter_pixel_rule [OF b i r w] by blast
  have len: "length uniform_band = 3" "length (uniform_band ! 1) = 3" "length (uniform_band ! 0) = 3"
    "uniform_band ! 1 ! 1 = Finite 5" "uniform_band ! 0 ! 0 = Finite 5"
    by (simp_all add: uniform_band_def)
  have "out ! 1 ! 1 = lee_rule (Finite 5) (footprint_values uniform_band 3 1 1)"
    using px len by simp
  then have o11: "out ! 1 ! 1 = Finite 5"
    using v11 m11 by (simp add: lee_rule_def)
  have "out ! 0 ! 0 = lee_rule (Finite 5) (footprint_values uniform_band 3 0 0)"
    using px len by simp
  then have o00: "out ! 0 ! 0 = Finite (2500 / 581)"
    using v00 by (simp add: lee_rule_def)
  show ?thesis using o v11 m11 o11 v00 o00 by blast
qed

text \<open>
  Claim C7, as the code has it.  At an in-bounds point with raster index \<open>(row, col)\<close>,
  \<open>lee_filter\<close> reads the window of the rows \<open>row\<close> to \<open>row + window_size\<close> and the columns
  \<open>col\<close> to \<open>col + window_size\<close>, which starts at the point's pixel and extends down and
  to the right, and the raster returns it clipped to the band.  The function returns the
  whole filtered grid: it has \<open>window_size\<close> rows where that many are left below \<open>row\<close> and
  the rows that are left otherwise, likewise for the columns, and its value at \<open>(i, j)\<close> is
  the Lee rule of the raster's pixel \<open>(row + i, col + j)\<close> over its neighbourhood in the
  window.  Where the window lies inside the raster the grid is \<open>window_size\<close> by
  \<open>window_size\<close>.
\<close>

theorem lee_filter_window_anchored:
  assumes "in_bounds (bounds ds) coordinate"
    and "index ds (snd coordinate) (fst coordinate) = Inr (row, col)"
    and "read ds 1 ((row, row + window_size), (col, col + window_size)) None nearest
           = Inr (band_window band ((row, row + window_size), (col, col + window_size)))"
    and "1 \<le> window_size" and "0 \<le> row" and "0 \<le> col"
  shows "\<exists>out. lee_filter window_size ds coordinate = Inr (Some out)
           \<and> length out = min (nat window_size) (length band - nat row)
           \<and> (nat row + nat window_size \<le> length band \<longrightarrow> length out = nat window_size)
           \<and> (\<forall>i<length out.
                 length (out ! i) = min (nat window_size) (length (band ! (nat row + i)) - nat col)
                 \<and> (nat col + nat window_size \<le> length (band ! (nat row + i)) \<longrightarrow>
                       length (out ! i) = nat window_size)
                 \<and> (\<forall>j<length (out ! i).
                       out ! i ! j =
                         lee_rule (band ! (nat row + i) ! (nat col + j))
                           (footprint_values
                              (band_window band ((row, row + window_size), (col, col + window_size)))
                              (nat window_size) i j)))"
proof -
  let ?window = "band_window band ((row, row + window_size), (col, col + window_size))"
  obtain out where out: "generic_filter ?window (lee_filter_single_pixel window_size) window_size = Inr out"
    and len: "length out = length ?window"
    and px: "\<forall>i<length ?window. length (out ! i) = length (?window ! i)
                \<and> (\<forall>j<length (?window ! i).
                      out ! i ! j = lee_rule (?window ! i ! j) (footprint_values ?window (nat window_size) i j))"
    using lee_generic_filter [OF assms(4), of ?window] by blast
  have res: "lee_filter window_size ds coordinate = Inr (Some out)"
    using assms(1-3) out by (rule lee_filter_in_bounds)
  have rows: "length out = min (nat window_size) (length band - nat row)"
    using len by (simp add: length_band_window)
  have cell: "length (out ! i) = min (nat window_size) (length (band ! (nat row + i)) - nat col)
      \<and> (\<forall>j<length (out ! i).
            out ! i ! j = lee_rule (band ! (nat row + i) ! (nat col + j))
                            (footprint_values ?window (nat window_size) i j))"
    if i: "i < length out" for i
  proof -
    have iw: "i < length ?window" using i len by simp
    have l: "length (out ! i) = length (?window ! i)" using px iw by simp
    have "length (?window ! i) = min (nat window_size) (length (band ! (nat row + i)) - nat col)"
      using iw by (simp add: band_window_row min.commute)
    moreover have "out ! i ! j = lee_rule (band ! (nat row + i) ! (nat col + j))
        (footprint_values ?window (nat window_size) i j)"
      if j: "j < length (out ! i)" for j
    proof -
      have jw: "j < length (?window ! i)" using j l by simp
      have "out ! i ! j = lee_rule (?window ! i ! j) (footprint_values ?window (nat window_size) i j)"
        using px iw jw by simp
      then show ?thesis using band_window_nth [OF iw jw] by simp
    qed
    ultimately show ?thesis using l by simp
  qed
  show ?thesis
  proof (intro exI conjI)
    show "lee_filter window_size ds coordinate = Inr (Some out)" by (rule res)
    show "length out = min (nat window_size) (length band - nat row)" by (rule rows)
    show "nat row + nat window_size \<le> length band \<longrightarrow> length out = nat window_size"
      using rows by auto
    show "\<forall>i<length out.
        length (out ! i) = min (nat window_size) (length (band ! (nat row + i)) - nat col)
        \<and> (nat col + nat window_size \<le> length (band ! (nat row + i)) \<longrightarrow>
              length (out ! i) = nat window_size)
        \<and> (\<forall>j<length (out ! i).
              out ! i ! j = lee_rule (band ! (nat row + i) ! (nat col + j))
                              (footprint_values ?window (nat window_size) i j))"
      using cell by auto
  qed
qed

text \<open>
  The theorem on the sample band at latitude \<open>2.5\<close> and longitude \<open>1.5\<close>, the pixel
  \<open>(1, 1)\<close>, with a window of size 2.  The window lies inside the band: it holds the
  pixels 6, 7, 10 and 11 of the rows 1 and 2 and the columns 1 and 2, and the result is a
  grid of 2 by 2 values whose first is the Lee rule of the pixel 6.
\<close>

theorem lee_filter_window_anchored_witness:
  "in_bounds (bounds (memory_dataset sample_band)) (Finite (5/2), Finite (3/2))
   \<and> index (memory_dataset sample_band) (Finite (3/2)) (Finite (5/2)) = Inr (1, 1)
   \<and> band_window sample_band ((1, 3), (1, 3)) = [[Finite 6, Finite 7], [Finite 10, Finite 11]]
   \<and> nat 1 + nat 2 \<le> length sample_band
   \<and> (\<exists>out. lee_filter 2 (memory_dataset sample_band) (Finite (5/2), Finite (3/2)) = Inr (Some out)
         \<and> length out = 2 \<and> length (out ! 0) = 2 \<and> length (out ! 1) = 2
         \<and> out ! 0 ! 0 = lee_rule (Finite 6)
               [Finite 0, Finite 0, Finite 0, Finite 6]
         \<and> out ! 0 ! 0 = Finite (162 / 31))"
proof -
  have b: "in_bounds (bounds (memory_dataset sample_band)) (Finite (5/2), Finite (3/2))"
    by (simp add: memory_defs in_bounds_def)
  have i: "index (memory_dataset sample_band) (snd (Finite (5/2), Finite (3/2)))
      (fst (Finite (5/2), Finite (3/2))) = Inr (1, 1)"
    by (simp add: memory_defs)
  have r: "read (memory_dataset sample_band) 1 ((1, 1 + 2), (1, 1 + 2)) None nearest
      = Inr (band_window sample_band ((1, 1 + 2), (1, 1 + 2)))"
    by (simp add: memory_dataset_def)
  have w: "(1::int) \<le> 2" and r0: "(0::int) \<le> 1" by simp_all
  have win: "band_window sample_band ((1, 3), (1, 3)) = [[Finite 6, Finite 7], [Finite 10, Finite 11]]"
    by (simp add: sample_band_def band_window_def)
  have fits: "nat 1 + nat 2 \<le> length sample_band"
    and fits0: "nat 1 + nat 2 \<le> length (sample_band ! (nat 1 + 0))"
    and fits1: "nat 1 + nat 2 \<le> length (sample_band ! (nat 1 + 1))"
    and px: "sample_band ! (nat 1 + 0) ! (nat 1 + 0) = Finite 6"
    by (simp_all add: sample_band_def)
  have fp: "footprint_values [[Finite 6, Finite 7], [Finite 10, Finite 11]] (nat 2) 0 0
      = [Finite 0, Finite 0, Finite 0, Finite 6]"
    by code_simp
  have rule: "lee_rule (Finite 6) [Finite 0, Finite 0, Finite 0, Finite 6] = Finite (162 / 31)"
    by code_simp
  obtain out where
    o: "lee_filter 2 (memory_dataset sample_band) (Finite (5/2), Finite (3/2)) = Inr (Some out)"
    and rows: "nat 1 + nat 2 \<le> length sample_band \<longrightarrow> length out = nat 2"
    and cells: "\<forall>i<length out.
        (nat 1 + nat 2 \<le> length (sample_band ! (nat 1 + i)) \<longrightarrow> length (out ! i) = nat 2)
        \<and> (\<forall>j<length (out ! i).
              out ! i ! j = lee_rule (sample_band ! (nat 1 + i) ! (nat 1 + j))
                (footprint_values (band_window sample_band ((1, 1 + 2), (1, 1 + 2))) (nat 2) i j))"
    using lee_filter_window_anchored [OF b i r w r0 r0] by blast
  have l: "length out = 2" using rows fits by simp
  then have l0: "length (out ! 0) = 2" and l1: "length (out ! 1) = 2"
    using cells fits0 fits1 by simp_all
  have "out ! 0 ! 0 = lee_rule (sample_band ! (nat 1 + 0) ! (nat 1 + 0))
      (footprint_values (band_window sample_band ((1, 1 + 2), (1, 1 + 2))) (nat 2) 0 0)"
    using cells l l0 by simp
  then have c: "out ! 0 ! 0 = lee_rule (Finite 6) [Finite 0, Finite 0, Finite 0, Finite 6]"
    using px win fp by simp
  show ?thesis using b i win fits o l l0 l1 c rule by simp
qed

text \<open>
  Claim C7 as the specification words it fails at the edge of the raster.  The point at
  latitude \<open>0.5\<close> and longitude \<open>3.5\<close> lies inside the bounds of the sample band, in its
  last pixel \<open>(3, 3)\<close>.  With a window of size 3 the window read is that one pixel, and
  the result is a grid of 1 by 1 values, not of 3 by 3.
\<close>

theorem lee_filter_window_size_counterexample:
  "in_bounds (bounds (memory_dataset sample_band)) (Finite (1/2), Finite (7/2))
   \<and> index (memory_dataset sample_band) (Finite (7/2)) (Finite (1/2)) = Inr (3, 3)
   \<and> read (memory_dataset sample_band) 1 ((3, 3 + 3), (3, 3 + 3)) None nearest
       = Inr [[Finite 16]]
   \<and> lee_filter 3 (memory_dataset sample_band) (Finite (1/2), Finite (7/2))
       = Inr (Some [[Finite (32768 / 2129)]])
   \<and> length [[Finite (32768 / 2129)]] \<noteq> (3::nat)"
  by code_simp

end
